theory Spec2Isabelle
  imports Main "HOL-Library.Char_ord" "HOL-Library.List_Lexorder"
    "HOL-Library.Product_Lexorder" "HOL-Library.Multiset"
begin

section \<open>Python strings\<close>

text \<open>
  Source text is a list of characters; each \<^typ>\<open>char\<close> stands for one code point
  below 256. \<open>isspace\<close> is Python's \<^verbatim>\<open>str.isspace\<close> (the set \<^verbatim>\<open>strip()\<close> removes and
  \<^verbatim>\<open>\s\<close> matches) and \<open>isalnum\<close> is \<^verbatim>\<open>str.isalnum\<close> on that range.
\<close>

definition isspace :: "char \<Rightarrow> bool" where
  "isspace c = (let n = (of_char c :: nat) in
     (9 \<le> n \<and> n \<le> 13) \<or> (28 \<le> n \<and> n \<le> 32) \<or> n = 133 \<or> n = 160)"

definition isalnum :: "char \<Rightarrow> bool" where
  "isalnum c = (let n = (of_char c :: nat) in
     (48 \<le> n \<and> n \<le> 57) \<or> (65 \<le> n \<and> n \<le> 90) \<or> (97 \<le> n \<and> n \<le> 122) \<or>
     n = 170 \<or> n = 178 \<or> n = 179 \<or> n = 181 \<or> n = 185 \<or> n = 186 \<or>
     (188 \<le> n \<and> n \<le> 190) \<or> (192 \<le> n \<and> n \<le> 214) \<or> (216 \<le> n \<and> n \<le> 246) \<or>
     (248 \<le> n \<and> n \<le> 255))"

text \<open>\<^verbatim>\<open>s.strip()\<close>: whitespace removed at both ends.\<close>

definition strip :: "string \<Rightarrow> string" where
  "strip s = rev (dropWhile isspace (rev (dropWhile isspace s)))"

text \<open>The line feed, \<^verbatim>\<open>"\n"\<close>.\<close>

definition newline :: char where
  "newline = CHR 0x0A"

text \<open>\<^verbatim>\<open>s.split(sep)\<close> for a one-character separator: never an empty list.\<close>

fun split_on :: "char \<Rightarrow> string \<Rightarrow> string list" where
  "split_on sep [] = [[]]"
| "split_on sep (c # cs) =
     (if c = sep then [] # split_on sep cs
      else (case split_on sep cs of [] \<Rightarrow> [[c]] | w # ws \<Rightarrow> (c # w) # ws))"

text \<open>\<^verbatim>\<open>sep.join(xs)\<close>.\<close>

fun join :: "string \<Rightarrow> string list \<Rightarrow> string" where
  "join sep [] = []"
| "join sep [x] = x"
| "join sep (x # y # ys) = x @ sep @ join sep (y # ys)"

text \<open>The decimal rendering of a line number inside an f-string.\<close>

fun str_nat :: "nat \<Rightarrow> string" where
  "str_nat n =
     (if n < 10 then [char_of (48 + n)] else str_nat (n div 10) @ [char_of (48 + n mod 10)])"

text \<open>An f-string renders a missing group as the text \<^verbatim>\<open>None\<close>.\<close>

definition fmt_opt :: "string option \<Rightarrow> string" where
  "fmt_opt v = (case v of None \<Rightarrow> ''None'' | Some s \<Rightarrow> s)"

text \<open>Truthiness of an optional string: \<^verbatim>\<open>None\<close> and the empty string are false.\<close>

definition truthy :: "string option \<Rightarrow> bool" where
  "truthy v = (case v of None \<Rightarrow> False | Some s \<Rightarrow> s \<noteq> [])"

datatype exn = OSError | SyntaxError | ValueError | AttributeError

section \<open>Regular expressions\<close>

text \<open>
  The fragment of Python's \<^verbatim>\<open>re\<close> syntax the two pattern tables use: literals, the
  classes \<^verbatim>\<open>\s\<close>, \<^verbatim>\<open>\w\<close>, \<^verbatim>\<open>[^...]\<close> and \<^verbatim>\<open>[...]\<close>, greedy \<^verbatim>\<open>*\<close> and \<^verbatim>\<open>+\<close> on a class,
  greedy \<^verbatim>\<open>?\<close>, numbered groups, concatenation and alternation. \<open>rmatch\<close> lists every
  way a pattern matches at the start of the text, in the order a backtracking matcher
  tries them; \<open>search\<close> is \<^verbatim>\<open>re.search\<close>: the first way at the leftmost start.
\<close>

datatype cclass = Space | Word | NoneOf string | OneOf string

fun in_class :: "cclass \<Rightarrow> char \<Rightarrow> bool" where
  "in_class Space c = isspace c"
| "in_class Word c = (isalnum c \<or> c = CHR ''_'')"
| "in_class (NoneOf cs) c = (c \<notin> set cs)"
| "in_class (OneOf cs) c = (c \<in> set cs)"

datatype regex =
    Lit string
  | One cclass
  | Star cclass
  | Plus cclass
  | Opt regex
  | Group nat regex
  | Cat regex regex
  | Or regex regex

type_synonym captures = "(nat \<times> string) list"

fun rmatch :: "regex \<Rightarrow> string \<times> captures \<Rightarrow> (string \<times> captures) list" where
  "rmatch (Lit l) (s, g) = (if take (length l) s = l then [(drop (length l) s, g)] else [])"
| "rmatch (One k) (s, g) =
     (case s of [] \<Rightarrow> [] | c # cs \<Rightarrow> if in_class k c then [(cs, g)] else [])"
| "rmatch (Star k) (s, g) =
     map (\<lambda>n. (drop n s, g)) (rev [0 ..< Suc (length (takeWhile (in_class k) s))])"
| "rmatch (Plus k) (s, g) =
     map (\<lambda>n. (drop n s, g)) (rev [1 ..< Suc (length (takeWhile (in_class k) s))])"
| "rmatch (Opt r) st = rmatch r st @ [st]"
| "rmatch (Group n r) (s, g) =
     map (\<lambda>(s', g'). (s', (n, take (length s - length s') s) # g')) (rmatch r (s, g))"
| "rmatch (Cat r1 r2) st = concat (map (rmatch r2) (rmatch r1 st))"
| "rmatch (Or r1 r2) st = rmatch r1 st @ rmatch r2 st"

fun search :: "regex \<Rightarrow> string \<Rightarrow> captures option" where
  "search r [] = (case rmatch r ([], []) of [] \<Rightarrow> None | (_, g) # _ \<Rightarrow> Some g)"
| "search r (c # cs) =
     (case rmatch r (c # cs, []) of [] \<Rightarrow> search r cs | (_, g) # _ \<Rightarrow> Some g)"

text \<open>\<^verbatim>\<open>match.group(n)\<close>: \<open>None\<close> for a group that took no part in the match.\<close>

definition match_group :: "captures \<Rightarrow> nat \<Rightarrow> string option" where
  "match_group m n = map_of m n"

text \<open>\<^verbatim>\<open>len(match.groups())\<close>: the number of groups of the pattern.\<close>

fun ngroups :: "regex \<Rightarrow> nat" where
  "ngroups (Opt r) = ngroups r"
| "ngroups (Group n r) = Suc (ngroups r)"
| "ngroups (Cat r1 r2) = ngroups r1 + ngroups r2"
| "ngroups (Or r1 r2) = ngroups r1 + ngroups r2"
| "ngroups r = 0"

definition seq :: "regex list \<Rightarrow> regex" where
  "seq rs = foldr Cat rs (Lit [])"

text \<open>\<^verbatim>\<open>\s*\<close>, \<^verbatim>\<open>\s+\<close>, \<^verbatim>\<open>(\w+)\<close> as group n, \<^verbatim>\<open>\(([^)]*)\)\<close> with group n.\<close>

definition ws :: regex where
  "ws = Star Space"

definition ws1 :: regex where
  "ws1 = Plus Space"

definition word_group :: "nat \<Rightarrow> regex" where
  "word_group n = Group n (Plus Word)"

definition paren_group :: "nat \<Rightarrow> regex" where
  "paren_group n = seq [Lit ''('', Group n (Star (NoneOf '')'')), Lit '')'']"

text \<open>The first pattern of an ordered list that matches, with its index.\<close>

fun first_match :: "regex list \<Rightarrow> nat \<Rightarrow> string \<Rightarrow> (nat \<times> regex \<times> captures) option" where
  "first_match [] idx line = None"
| "first_match (p # ps) idx line =
     (case search p line of
        Some m \<Rightarrow> Some (idx, p, m)
      | None \<Rightarrow> first_match ps (Suc idx) line)"

section \<open>Parameter cleaning\<close>

text \<open>
  The character loop shared by \<^verbatim>\<open>_clean_js_params\<close> and \<^verbatim>\<open>_clean_typescript_params\<close>;
  the state is \<^verbatim>\<open>(param_list, current, paren_count)\<close>.
\<close>

fun split_params :: "string \<Rightarrow> string list \<times> string \<times> int \<Rightarrow> string list \<times> string \<times> int" where
  "split_params [] st = st"
| "split_params (ch # cs) (param_list, current, paren_count) =
     (if ch = CHR ''('' then split_params cs (param_list, current @ [ch], paren_count + 1)
      else if ch = CHR '')'' then split_params cs (param_list, current @ [ch], paren_count - 1)
      else if ch = CHR '','' \<and> paren_count = 0
        then split_params cs (param_list @ [strip current], [], paren_count)
      else split_params cs (param_list, current @ [ch], paren_count))"

definition param_list_of :: "string \<Rightarrow> string list" where
  "param_list_of params =
     (case split_params params ([], [], 0) of
        (param_list, current, paren_count) \<Rightarrow>
          if strip current \<noteq> [] then param_list @ [strip current] else param_list)"

definition before_eq :: "string \<Rightarrow> string" where
  "before_eq param = takeWhile (\<lambda>c. c \<noteq> CHR ''='') param"

definition js_clean_param :: "string \<Rightarrow> string" where
  "js_clean_param param =
     strip (if CHR ''='' \<in> set param then strip (before_eq param) else param)"

definition js_cleaned :: "string \<Rightarrow> string list" where
  "js_cleaned params = map js_clean_param (param_list_of params)"

definition clean_js_params :: "string \<Rightarrow> string" where
  "clean_js_params params = (if params = [] then [] else join '', '' (js_cleaned params))"

definition ts_clean_param :: "string \<Rightarrow> string" where
  "ts_clean_param param0 =
     (let param = (if CHR ''='' \<in> set param0 then strip (before_eq param0) else param0) in
      if CHR '':'' \<in> set param
      then strip (takeWhile (\<lambda>c. c \<noteq> CHR '':'') param) @ '': '' @
           strip (tl (dropWhile (\<lambda>c. c \<noteq> CHR '':'') param))
      else strip param)"

definition ts_cleaned :: "string \<Rightarrow> string list" where
  "ts_cleaned params = map ts_clean_param (param_list_of params)"

definition clean_typescript_params :: "string \<Rightarrow> string" where
  "clean_typescript_params params =
     (if params = [] then [] else join '', '' (ts_cleaned params))"

section \<open>Paths and files\<close>

text \<open>
  A path is the list of its components; \<open>path_name\<close> is \<^verbatim>\<open>Path.name\<close>. Reading a file
  with \<^verbatim>\<open>read_text(encoding="utf-8", errors="ignore")\<close> either raises or gives the text.
\<close>

type_synonym path = "string list"

definition path_name :: "path \<Rightarrow> string" where
  "path_name p = (if p = [] then [] else last p)"

type_synonym filesystem = "path \<Rightarrow> exn + string"

section \<open>The JavaScript parser\<close>

definition js_function_patterns :: "regex list" where
  "js_function_patterns =
    [seq [Lit ''export'', ws1, Lit ''default'', ws1, Lit ''function'', ws,
          Opt (word_group 1), ws, paren_group 2],
     seq [Lit ''export'', ws1, Opt (seq [Lit ''async'', ws1]), Lit ''function'', ws1,
          word_group 1, ws, paren_group 2],
     seq [Opt (seq [Lit ''async'', ws1]), Lit ''function'', ws1, word_group 1, ws,
          paren_group 2],
     seq [Opt (seq [Lit ''export'', ws1]), Or (Lit ''const'') (Or (Lit ''let'') (Lit ''var'')),
          ws1, word_group 1, ws, Lit ''='', ws, Opt (seq [Lit ''async'', ws1]),
          paren_group 2, ws, Lit ''=>''],
     seq [Lit ''export'', ws1, Lit ''default'', ws, Opt (seq [Lit ''async'', ws1]),
          paren_group 1, ws, Lit ''=>''],
     seq [word_group 1, ws, paren_group 2, ws, Lit ''{'']]"

definition js_class_patterns :: "regex list" where
  "js_class_patterns =
    [seq [Lit ''export'', ws1, Lit ''default'', ws1, Lit ''class'', ws1, Opt (word_group 1)],
     seq [Lit ''export'', ws1, Lit ''class'', ws1, word_group 1],
     seq [Lit ''class'', ws1, word_group 1]]"

definition default_export_pattern :: regex where
  "default_export_pattern =
     seq [Lit ''export'', ws1, Lit ''default'', ws1, word_group 1, ws, Lit '';'']"

text \<open>The body of the function-pattern loop once pattern \<open>idx\<close> has matched.\<close>

definition js_func_record :: "string \<Rightarrow> nat \<Rightarrow> nat \<Rightarrow> regex \<Rightarrow> captures \<Rightarrow> exn + string" where
  "js_func_record rel_path i idx p m =
     (if idx = 4 then
        (case match_group m 1 of
           None \<Rightarrow> Inl AttributeError
         | Some g \<Rightarrow>
             Inr (rel_path @ '':'' @ str_nat i @ '': '' @ ''<anonymous>'' @ ''('' @
                  clean_js_params (strip g) @ '')''))
      else
        (let func_name = match_group m 1;
             params = (if ngroups p > 1 then match_group m 2 else Some []);
             func_name = (if truthy func_name then fmt_opt func_name else ''<anonymous>'')
         in case params of
              None \<Rightarrow> Inl AttributeError
            | Some ps \<Rightarrow>
                Inr (rel_path @ '':'' @ str_nat i @ '': '' @ func_name @ ''('' @
                     clean_js_params (strip ps) @ '')'')))"

definition js_class_record :: "string \<Rightarrow> nat \<Rightarrow> captures \<Rightarrow> string" where
  "js_class_record rel_path i m =
     rel_path @ '':'' @ str_nat i @ '': class '' @
     (if truthy (match_group m 1) then fmt_opt (match_group m 1) else ''<anonymous>'')"

text \<open>
  One turn of the line loop of \<^verbatim>\<open>JavaScriptParser._parse_with_regex\<close>, on the raw line
  numbered \<open>i\<close>, from the two lists collected so far.
\<close>

definition js_line :: "string \<Rightarrow> nat \<Rightarrow> string \<Rightarrow> string list \<times> string list \<Rightarrow>
    exn + (string list \<times> string list)" where
  "js_line rel_path i raw acc =
     (case acc of (func_lines, cls_lines) \<Rightarrow>
      let line = strip raw in
      if line = [] then Inr (func_lines, cls_lines)
      else
        (case first_match js_function_patterns 0 line of
           Some (idx, p, m) \<Rightarrow>
             (case js_func_record rel_path i idx p m of
                Inl e \<Rightarrow> Inl e
              | Inr r \<Rightarrow> Inr (func_lines @ [r], cls_lines))
         | None \<Rightarrow>
             (case search default_export_pattern line of
                Some m \<Rightarrow>
                  Inr (func_lines @
                       [rel_path @ '':'' @ str_nat i @ '': export default '' @
                        fmt_opt (match_group m 1)], cls_lines)
              | None \<Rightarrow>
                  (case first_match js_class_patterns 0 line of
                     Some (idx, p, m) \<Rightarrow>
                       Inr (func_lines, cls_lines @ [js_class_record rel_path i m])
                   | None \<Rightarrow> Inr (func_lines, cls_lines)))))"

fun js_lines :: "string \<Rightarrow> nat \<Rightarrow> string list \<Rightarrow> string list \<times> string list \<Rightarrow>
    exn + (string list \<times> string list)" where
  "js_lines rel_path i [] acc = Inr acc"
| "js_lines rel_path i (raw # rest) acc =
     (case js_line rel_path i raw acc of
        Inl e \<Rightarrow> Inl e
      | Inr acc' \<Rightarrow> js_lines rel_path (Suc i) rest acc')"

definition js_parse_with_regex :: "string \<Rightarrow> path \<Rightarrow> exn + (string list \<times> string list)" where
  "js_parse_with_regex content file_path =
     js_lines (path_name file_path) 1 (split_on newline content) ([], [])"

text \<open>\<^verbatim>\<open>JavaScriptParser.parse_file\<close>: every exception becomes the empty pair.\<close>

definition js_parse_file :: "filesystem \<Rightarrow> path \<Rightarrow> exn + (string list \<times> string list)" where
  "js_parse_file fs file_path =
     (case fs file_path of
        Inl e \<Rightarrow> Inr ([], [])
      | Inr content \<Rightarrow>
          (case js_parse_with_regex content file_path of
             Inl e \<Rightarrow> Inr ([], [])
           | Inr r \<Rightarrow> Inr r))"

section \<open>The TypeScript parser\<close>

definition ts_function_patterns :: "regex list" where
  "ts_function_patterns =
    [seq [Opt (seq [Lit ''export'', ws1]), Opt (seq [Lit ''async'', ws1]), Lit ''function'',
          ws1, word_group 1, ws, paren_group 2,
          Opt (seq [ws, Lit '':'', ws, Group 3 (Plus (NoneOf ''{''))])],
     seq [Opt (seq [Lit ''export'', ws1]), Or (Lit ''const'') (Or (Lit ''let'') (Lit ''var'')),
          ws1, word_group 1, ws, One (OneOf '':=''), ws, Opt (seq [Lit ''async'', ws1]),
          paren_group 2, Opt (seq [ws, Lit ''=>'', ws, Plus (NoneOf ''{'')])],
     seq [word_group 1, ws, paren_group 2,
          Opt (seq [ws, Lit '':'', ws, Group 3 (Plus (NoneOf ''{''))])]]"

definition ts_class_patterns :: "regex list" where
  "ts_class_patterns =
    [seq [Opt (seq [Lit ''export'', ws1]), Opt (seq [Lit ''abstract'', ws1]), Lit ''class'',
          ws1, word_group 1,
          Opt (seq [ws1, Lit ''extends'', ws1, word_group 2]),
          Opt (seq [ws1, Lit ''implements'', ws1, Group 3 (Plus (NoneOf ''{''))])],
     seq [Opt (seq [Lit ''export'', ws1]), Lit ''interface'', ws1, word_group 1,
          Opt (seq [ws1, Lit ''extends'', ws1, Group 2 (Plus (NoneOf ''{''))])],
     seq [Opt (seq [Lit ''export'', ws1]), Lit ''type'', ws1, word_group 1, ws, Lit ''='', ws,
          Group 2 (Plus (NoneOf '';''))]]"

text \<open>The return type of a matched function pattern.\<close>

definition ts_return_type :: "regex \<Rightarrow> captures \<Rightarrow> string" where
  "ts_return_type p m =
     (if ngroups p > 2 \<and> truthy (match_group m 3) then strip (fmt_opt (match_group m 3))
      else ''any'')"

definition ts_func_record :: "string \<Rightarrow> nat \<Rightarrow> regex \<Rightarrow> captures \<Rightarrow> exn + string" where
  "ts_func_record rel_path i p m =
     (let func_name = match_group m 1 in
      case match_group m 2 of
        None \<Rightarrow> Inl AttributeError
      | Some g \<Rightarrow>
          (let params = strip g;
               return_type = ts_return_type p m;
               params = (if params \<noteq> [] then clean_typescript_params params else params)
           in Inr (rel_path @ '':'' @ str_nat i @ '': '' @ fmt_opt func_name @ ''('' @ params @
                   '') -> '' @ return_type)))"

definition ts_class_record :: "string \<Rightarrow> nat \<Rightarrow> regex \<Rightarrow> captures \<Rightarrow> string" where
  "ts_class_record rel_path i p m =
     (let class_name = match_group m 1;
          extends = (if ngroups p > 1 \<and> truthy (match_group m 2)
                     then fmt_opt (match_group m 2) else []);
          implements = (if ngroups p > 2 \<and> truthy (match_group m 3)
                        then fmt_opt (match_group m 3) else []);
          class_def = ''class '' @ fmt_opt class_name;
          class_def = (if extends \<noteq> [] then class_def @ '' extends '' @ extends else class_def);
          class_def = (if implements \<noteq> [] then class_def @ '' implements '' @ implements
                       else class_def)
      in rel_path @ '':'' @ str_nat i @ '': '' @ class_def)"

text \<open>The two pattern loops of one line: the function loop, then the class loop.\<close>

definition ts_line_funcs :: "string \<Rightarrow> nat \<Rightarrow> string \<Rightarrow> string list \<Rightarrow> exn + string list" where
  "ts_line_funcs rel_path i line func_lines =
     (case first_match ts_function_patterns 0 line of
        Some (idx, p, m) \<Rightarrow>
          (case ts_func_record rel_path i p m of
             Inl e \<Rightarrow> Inl e
           | Inr r \<Rightarrow> Inr (func_lines @ [r]))
      | None \<Rightarrow> Inr func_lines)"

definition ts_line_classes :: "string \<Rightarrow> nat \<Rightarrow> string \<Rightarrow> string list \<Rightarrow> string list" where
  "ts_line_classes rel_path i line cls_lines =
     (case first_match ts_class_patterns 0 line of
        Some (idx, p, m) \<Rightarrow> cls_lines @ [ts_class_record rel_path i p m]
      | None \<Rightarrow> cls_lines)"

definition ts_line :: "string \<Rightarrow> nat \<Rightarrow> string \<Rightarrow> string list \<times> string list \<Rightarrow>
    exn + (string list \<times> string list)" where
  "ts_line rel_path i raw acc =
     (case acc of (func_lines, cls_lines) \<Rightarrow>
      let line = strip raw in
      case ts_line_funcs rel_path i line func_lines of
        Inl e \<Rightarrow> Inl e
      | Inr func_lines' \<Rightarrow> Inr (func_lines', ts_line_classes rel_path i line cls_lines))"

fun ts_lines :: "string \<Rightarrow> nat \<Rightarrow> string list \<Rightarrow> string list \<times> string list \<Rightarrow>
    exn + (string list \<times> string list)" where
  "ts_lines rel_path i [] acc = Inr acc"
| "ts_lines rel_path i (raw # rest) acc =
     (case ts_line rel_path i raw acc of
        Inl e \<Rightarrow> Inl e
      | Inr acc' \<Rightarrow> ts_lines rel_path (Suc i) rest acc')"

definition ts_parse_with_regex :: "string \<Rightarrow> path \<Rightarrow> exn + (string list \<times> string list)" where
  "ts_parse_with_regex content file_path =
     ts_lines (path_name file_path) 1 (split_on newline content) ([], [])"

text \<open>\<^verbatim>\<open>TypeScriptParser.parse_file\<close>: every exception becomes the empty pair.\<close>

definition ts_parse_file :: "filesystem \<Rightarrow> path \<Rightarrow> exn + (string list \<times> string list)" where
  "ts_parse_file fs file_path =
     (case fs file_path of
        Inl e \<Rightarrow> Inr ([], [])
      | Inr content \<Rightarrow>
          (case ts_parse_with_regex content file_path of
             Inl e \<Rightarrow> Inr ([], [])
           | Inr r \<Rightarrow> Inr r))"

section \<open>The Python syntax tree\<close>

text \<open>
  The nodes of Python's \<^verbatim>\<open>ast\<close> module that the extractor tells apart. \<open>Other\<close> is any
  other node that can hold statements (the module itself, \<^verbatim>\<open>if\<close>, \<^verbatim>\<open>for\<close>, \<^verbatim>\<open>try\<close>, an
  exception handler, ...), with its child nodes in field order. Expressions and
  argument lists are kept apart from \<open>node\<close>: they hold no statement, so a walk that
  looks for definitions and assignments finds nothing in them, and leaving them out
  does not change the order of the nodes that remain. \<^verbatim>\<open>ast.unparse\<close> is a parameter.
\<close>

datatype expr = Name string | Attribute expr string | OtherExpr string

record arg =
  arg :: string
  annotation :: "expr option"

record arguments =
  posonlyargs :: "arg list"
  args :: "arg list"
  vararg :: "arg option"
  kwonlyargs :: "arg list"
  kwarg :: "arg option"

text \<open>
  \<open>FunctionDef name args body decorator_list returns lineno\<close>, the same for
  \<open>AsyncFunctionDef\<close>; \<open>ClassDef name bases body lineno\<close>; \<open>Assign targets type_comment\<close>;
  \<open>AnnAssign target annotation\<close>.
\<close>

datatype node =
    FunctionDef string arguments "node list" "expr list" "expr option" nat
  | AsyncFunctionDef string arguments "node list" "expr list" "expr option" nat
  | ClassDef string "expr list" "node list" nat
  | Assign "expr list" "string option"
  | AnnAssign expr expr
  | Other "node list"

fun iter_child_nodes :: "node \<Rightarrow> node list" where
  "iter_child_nodes (FunctionDef name a body decorator_list returns lineno) = body"
| "iter_child_nodes (AsyncFunctionDef name a body decorator_list returns lineno) = body"
| "iter_child_nodes (ClassDef name bases body lineno) = body"
| "iter_child_nodes (Assign targets type_comment) = []"
| "iter_child_nodes (AnnAssign target ann) = []"
| "iter_child_nodes (Other children) = children"

fun nsize :: "node \<Rightarrow> nat" where
  "nsize (FunctionDef name a body decorator_list returns lineno) = Suc (sum_list (map nsize body))"
| "nsize (AsyncFunctionDef name a body decorator_list returns lineno) =
     Suc (sum_list (map nsize body))"
| "nsize (ClassDef name bases body lineno) = Suc (sum_list (map nsize body))"
| "nsize (Assign targets type_comment) = 1"
| "nsize (AnnAssign target ann) = 1"
| "nsize (Other children) = Suc (sum_list (map nsize children))"

text \<open>
  \<^verbatim>\<open>ast.walk\<close>: a queue that starts with the root; the node at the front is taken off,
  its children are put at the back, and the node is yielded.
\<close>

function walk_queue :: "node list \<Rightarrow> node list" where
  "walk_queue [] = []"
| "walk_queue (n # todo) = n # walk_queue (todo @ iter_child_nodes n)"
  by pat_completeness auto
termination
proof (relation "measure (\<lambda>q. sum_list (map nsize q))")
  show "wf (measure (\<lambda>q. sum_list (map nsize q)))"
    by simp
next
  fix n :: node and todo :: "node list"
  have "nsize n = Suc (sum_list (map nsize (iter_child_nodes n)))"
    by (cases n) simp_all
  then show "(todo @ iter_child_nodes n, n # todo) \<in> measure (\<lambda>q. sum_list (map nsize q))"
    by simp
qed

definition walk :: "node \<Rightarrow> node list" where
  "walk n = walk_queue [n]"

section \<open>The Python extractor\<close>

fun type_of_assign :: "(expr \<Rightarrow> string) \<Rightarrow> node \<Rightarrow> string" where
  "type_of_assign unparse (AnnAssign target ann) = unparse ann"
| "type_of_assign unparse (Assign targets type_comment) =
     (if truthy type_comment then fmt_opt type_comment else ''Unknown'')"
| "type_of_assign unparse n = ''Unknown''"

text \<open>\<^verbatim>\<open>[stmt.target] if isinstance(stmt, ast.AnnAssign) else stmt.targets\<close>, for the two
  assignment nodes; no other node reaches it.\<close>

fun assign_targets :: "node \<Rightarrow> expr list option" where
  "assign_targets (AnnAssign target ann) = Some [target]"
| "assign_targets (Assign targets type_comment) = Some targets"
| "assign_targets n = None"

fun name_id :: "expr \<Rightarrow> string option" where
  "name_id (Name ident) = Some ident"
| "name_id e = None"

fun self_attr :: "expr \<Rightarrow> string option" where
  "self_attr (Attribute (Name ident) attr) = (if ident = ''self'' then Some attr else None)"
| "self_attr e = None"

definition class_attrs_of_stmt :: "(expr \<Rightarrow> string) \<Rightarrow> node \<Rightarrow> (string \<times> string) list" where
  "class_attrs_of_stmt unparse stmt =
     (case assign_targets stmt of
        None \<Rightarrow> []
      | Some targets \<Rightarrow>
          map (\<lambda>ident. (ident, type_of_assign unparse stmt)) (List.map_filter name_id targets))"

fun collect_class_attrs :: "(expr \<Rightarrow> string) \<Rightarrow> node \<Rightarrow> (string \<times> string) list" where
  "collect_class_attrs unparse (ClassDef name bases body lineno) =
     concat (map (class_attrs_of_stmt unparse) body)"
| "collect_class_attrs unparse n = []"

definition instance_attrs_of_node :: "(expr \<Rightarrow> string) \<Rightarrow> node \<Rightarrow> (string \<times> string) list" where
  "instance_attrs_of_node unparse n =
     (case assign_targets n of
        None \<Rightarrow> []
      | Some targets \<Rightarrow>
          map (\<lambda>attr. (attr, type_of_assign unparse n)) (List.map_filter self_attr targets))"

fun instance_attrs_of_stmt :: "(expr \<Rightarrow> string) \<Rightarrow> node \<Rightarrow> (string \<times> string) list" where
  "instance_attrs_of_stmt unparse (FunctionDef name a body decorator_list returns lineno) =
     (if name = ''__init__''
      then concat (map (instance_attrs_of_node unparse)
             (walk (FunctionDef name a body decorator_list returns lineno)))
      else [])"
| "instance_attrs_of_stmt unparse n = []"

fun collect_instance_attrs :: "(expr \<Rightarrow> string) \<Rightarrow> node \<Rightarrow> (string \<times> string) list" where
  "collect_instance_attrs unparse (ClassDef name bases body lineno) =
     concat (map (instance_attrs_of_stmt unparse) body)"
| "collect_instance_attrs unparse n = []"

fun is_property :: "expr \<Rightarrow> bool" where
  "is_property (Name ident) = (ident = ''property'')"
| "is_property (Attribute e attr) = (attr = ''property'')"
| "is_property e = False"

definition render_returns :: "(expr \<Rightarrow> string) \<Rightarrow> expr option \<Rightarrow> string" where
  "render_returns unparse returns =
     (case returns of Some r \<Rightarrow> unparse r | None \<Rightarrow> ''Unknown'')"

fun properties_of_stmt :: "(expr \<Rightarrow> string) \<Rightarrow> node \<Rightarrow> (string \<times> string) list" where
  "properties_of_stmt unparse (FunctionDef name a body decorator_list returns lineno) =
     map (\<lambda>dec. (name, render_returns unparse returns)) (filter is_property decorator_list)"
| "properties_of_stmt unparse n = []"

fun collect_properties :: "(expr \<Rightarrow> string) \<Rightarrow> node \<Rightarrow> (string \<times> string) list" where
  "collect_properties unparse (ClassDef name bases body lineno) =
     concat (map (properties_of_stmt unparse) body)"
| "collect_properties unparse n = []"

text \<open>The parameter list of a function line.\<close>

definition render_arg :: "(expr \<Rightarrow> string) \<Rightarrow> arg \<Rightarrow> string" where
  "render_arg unparse a =
     (let ann = (case annotation a of Some e \<Rightarrow> Some (unparse e) | None \<Rightarrow> None)
      in if truthy ann then arg a @ '': '' @ fmt_opt ann else arg a)"

definition render_args :: "(expr \<Rightarrow> string) \<Rightarrow> arguments \<Rightarrow> string list" where
  "render_args unparse a =
     map (render_arg unparse) (args a) @
     (case vararg a of Some v \<Rightarrow> [''*'' @ arg v] | None \<Rightarrow> []) @
     (case kwarg a of Some k \<Rightarrow> [''**'' @ arg k] | None \<Rightarrow> [])"

definition func_line :: "(expr \<Rightarrow> string) \<Rightarrow> string \<Rightarrow> string \<Rightarrow> arguments \<Rightarrow> expr option \<Rightarrow> nat \<Rightarrow> string" where
  "func_line unparse rel name a returns lineno =
     rel @ '':'' @ str_nat lineno @ '': '' @ name @ ''('' @ join '', '' (render_args unparse a) @
     '') -> '' @ render_returns unparse returns"

text \<open>
  The lines of one class: the header, then a summary line for each of the three lists
  that is not empty. The bullet of the indent, U+2022, stands as its three UTF-8 bytes.
\<close>

definition indent :: string where
  "indent = ''    '' @ [CHR 0xE2, CHR 0x80, CHR 0xA2] @ '' ''"

definition render_pairs :: "(string \<times> string) list \<Rightarrow> string" where
  "render_pairs xs = join '', '' (map (\<lambda>(n, t). n @ '' -> '' @ t) xs)"

definition class_header :: "(expr \<Rightarrow> string) \<Rightarrow> string \<Rightarrow> string \<Rightarrow> expr list \<Rightarrow> nat \<Rightarrow> string" where
  "class_header unparse rel name bases lineno =
     (let header = rel @ '':'' @ str_nat lineno @ '': class '' @ name;
          bases_text = (if bases \<noteq> [] then join '', '' (map unparse bases) else [])
      in if bases_text \<noteq> [] then header @ ''('' @ bases_text @ '')'' else header)"

fun class_lines :: "(expr \<Rightarrow> string) \<Rightarrow> string \<Rightarrow> node \<Rightarrow> string list" where
  "class_lines unparse rel (ClassDef name bases body lineno) =
     (let cls = ClassDef name bases body lineno;
          class_attrs = collect_class_attrs unparse cls;
          inst_attrs = collect_instance_attrs unparse cls;
          props = collect_properties unparse cls
      in [class_header unparse rel name bases lineno] @
         (if class_attrs \<noteq> [] then [indent @ ''class_attrs: '' @ render_pairs (sort class_attrs)]
          else []) @
         (if inst_attrs \<noteq> [] then [indent @ ''instance_attrs: '' @ render_pairs (sort inst_attrs)]
          else []) @
         (if props \<noteq> [] then [indent @ ''properties: '' @ render_pairs props] else []))"
| "class_lines unparse rel n = []"

text \<open>The body of the loop over \<^verbatim>\<open>ast.walk(tree)\<close>, on the two lists collected so far.\<close>

fun visit :: "(expr \<Rightarrow> string) \<Rightarrow> string \<Rightarrow> string list \<times> string list \<Rightarrow> node \<Rightarrow>
    string list \<times> string list" where
  "visit unparse rel (func_lines, cls_lines) (FunctionDef name a body decorator_list returns lineno) =
     (func_lines @ [func_line unparse rel name a returns lineno], cls_lines)"
| "visit unparse rel (func_lines, cls_lines)
     (AsyncFunctionDef name a body decorator_list returns lineno) =
     (func_lines @ [func_line unparse rel name a returns lineno], cls_lines)"
| "visit unparse rel (func_lines, cls_lines) (ClassDef name bases body lineno) =
     (func_lines, cls_lines @ class_lines unparse rel (ClassDef name bases body lineno))"
| "visit unparse rel acc n = acc"

definition extract_tree :: "(expr \<Rightarrow> string) \<Rightarrow> string \<Rightarrow> node \<Rightarrow> string list \<times> string list" where
  "extract_tree unparse rel tree = foldl (visit unparse rel) ([], []) (walk tree)"

text \<open>\<^verbatim>\<open>file.relative_to(project_root)\<close>, rendered; \<^verbatim>\<open>ValueError\<close> when the file is not under
  the root.\<close>

definition relative_to :: "path \<Rightarrow> path \<Rightarrow> exn + string" where
  "relative_to file project_root =
     (if take (length project_root) file = project_root
      then Inr (let r = drop (length project_root) file in if r = [] then ''.'' else join ''/'' r)
      else Inl ValueError)"

text \<open>
  \<^verbatim>\<open>extract_from_file\<close>. Reading the file and \<^verbatim>\<open>ast.parse\<close> are parameters; of what they
  raise, only \<^verbatim>\<open>SyntaxError\<close> from the parser is caught.
\<close>

definition extract_from_file :: "filesystem \<Rightarrow> (string \<Rightarrow> exn + node) \<Rightarrow> (expr \<Rightarrow> string) \<Rightarrow>
    path \<Rightarrow> path \<Rightarrow> exn + (string list \<times> string list)" where
  "extract_from_file fs ast_parse unparse file project_root =
     (case fs file of
        Inl e \<Rightarrow> Inl e
      | Inr source \<Rightarrow>
          (case ast_parse source of
             Inl e \<Rightarrow> (if e = SyntaxError then Inr ([], []) else Inl e)
           | Inr tree \<Rightarrow>
               (case relative_to file project_root of
                  Inl e \<Rightarrow> Inl e
                | Inr rel \<Rightarrow> Inr (extract_tree unparse rel tree))))"

section \<open>Inputs named by the specification\<close>

text \<open>The six-line JavaScript input of the default-export test.\<close>

definition six_line_source :: string where
  "six_line_source =
     ''export function foo(a,b) {}'' @ [newline] @
     ''const bar = (x, y=1) => {}'' @ [newline] @
     ''export default function (z) {}'' @ [newline] @
     ''export default (q)=>{}'' @ [newline] @
     ''function qux() {}'' @ [newline] @
     ''export default qux;''"

section \<open>The order of a walk, as the specification words it\<close>

text \<open>
  The specification speaks of a pre-order (depth-first) walk: a node, then the walks of
  its children from left to right. \<open>level_of k q\<close> are the nodes \<open>k\<close> levels below the
  nodes of \<open>q\<close>, from left to right.
\<close>

fun preorder :: "node \<Rightarrow> node list" where
  "preorder (FunctionDef name a body decorator_list returns lineno) =
     FunctionDef name a body decorator_list returns lineno # concat (map preorder body)"
| "preorder (AsyncFunctionDef name a body decorator_list returns lineno) =
     AsyncFunctionDef name a body decorator_list returns lineno # concat (map preorder body)"
| "preorder (ClassDef name bases body lineno) =
     ClassDef name bases body lineno # concat (map preorder body)"
| "preorder (Assign targets type_comment) = [Assign targets type_comment]"
| "preorder (AnnAssign target ann) = [AnnAssign target ann]"
| "preorder (Other children) = Other children # concat (map preorder children)"

fun level_of :: "nat \<Rightarrow> node list \<Rightarrow> node list" where
  "level_of 0 q = q"
| "level_of (Suc k) q = level_of k (concat (map iter_child_nodes q))"

fun is_function :: "node \<Rightarrow> bool" where
  "is_function (FunctionDef name a body decorator_list returns lineno) = True"
| "is_function (AsyncFunctionDef name a body decorator_list returns lineno) = True"
| "is_function n = False"

fun is_class :: "node \<Rightarrow> bool" where
  "is_class (ClassDef name bases body lineno) = True"
| "is_class n = False"

text \<open>The function line of a function or async-function node.\<close>

fun function_record :: "(expr \<Rightarrow> string) \<Rightarrow> string \<Rightarrow> node \<Rightarrow> string" where
  "function_record unparse rel (FunctionDef name a body decorator_list returns lineno) =
     func_line unparse rel name a returns lineno"
| "function_record unparse rel (AsyncFunctionDef name a body decorator_list returns lineno) =
     func_line unparse rel name a returns lineno"
| "function_record unparse rel n = []"

text \<open>
  Concrete inputs. \<open>plain_unparse\<close> renders the expressions of the examples as
  \<^verbatim>\<open>ast.unparse\<close> does: a name as itself, an attribute access with a dot, any other
  expression as the source text it carries.
\<close>

fun plain_unparse :: "expr \<Rightarrow> string" where
  "plain_unparse (Name ident) = ident"
| "plain_unparse (Attribute e attr) = plain_unparse e @ ''.'' @ attr"
| "plain_unparse (OtherExpr src) = src"

definition noargs :: arguments where
  "noargs = \<lparr>posonlyargs = [], args = [], vararg = None, kwonlyargs = [], kwarg = None\<rparr>"

text \<open>
  \<^verbatim>\<open>def a():\<close> with \<^verbatim>\<open>def b(): pass\<close> nested in it (lines 1 and 2), then \<^verbatim>\<open>def c(): pass\<close>
  (line 3).
\<close>

definition nested_tree :: node where
  "nested_tree =
     Other [FunctionDef ''a'' noargs [FunctionDef ''b'' noargs [] [] None 2] [] None 1,
            FunctionDef ''c'' noargs [] [] None 3]"

text \<open>
  \<^verbatim>\<open>class K(B):\<close> with the body \<^verbatim>\<open>z = a = 0\<close>, \<^verbatim>\<open>m: int = 1\<close>, an initializer that assigns
  \<^verbatim>\<open>self.x = 1\<close>, and the properties \<^verbatim>\<open>q\<close> (returning \<^verbatim>\<open>int\<close>) and \<^verbatim>\<open>p\<close> (no annotation).
\<close>

definition sample_class :: node where
  "sample_class =
     ClassDef ''K'' [Name ''B'']
       [Assign [Name ''z'', Name ''a''] None,
        AnnAssign (Name ''m'') (Name ''int''),
        FunctionDef ''__init__'' noargs [Assign [Attribute (Name ''self'') ''x''] None] [] None 4,
        FunctionDef ''q'' noargs [] [Name ''property''] (Some (Name ''int'')) 7,
        FunctionDef ''p'' noargs [] [Name ''property''] None 10] 1"

text \<open>\<^verbatim>\<open>def f(p, /, x, *va, k, **kw)\<close>.\<close>

definition mixed_arguments :: arguments where
  "mixed_arguments =
     \<lparr>posonlyargs = [\<lparr>arg = ''p'', annotation = None\<rparr>],
      args = [\<lparr>arg = ''x'', annotation = None\<rparr>],
      vararg = Some \<lparr>arg = ''va'', annotation = None\<rparr>,
      kwonlyargs = [\<lparr>arg = ''k'', annotation = None\<rparr>],
      kwarg = Some \<lparr>arg = ''kw'', annotation = None\<rparr>\<rparr>"

text \<open>A file system in which no file can be read.\<close>

definition unreadable :: filesystem where
  "unreadable p = Inl OSError"

section \<open>What a pattern needs in order to match\<close>










section \<open>Parameter splitting, as the specification words it\<close>

text \<open>
  The depth of a text is the number of its opening parentheses less the number of its
  closing ones. A top-level comma of \<open>s\<close> is a position that holds a comma and has a
  prefix of depth zero; \<open>top_commas_from d\<close> counts the depth from \<open>d\<close>. \<open>cut_at\<close> cuts a
  text at a rising list of positions and drops the characters at these positions.
\<close>

definition paren_depth :: "string \<Rightarrow> int" where
  "paren_depth s =
     int (length (filter (\<lambda>c. c = CHR ''('') s)) - int (length (filter (\<lambda>c. c = CHR '')'') s))"

definition top_commas_from :: "int \<Rightarrow> string \<Rightarrow> nat list" where
  "top_commas_from d s =
     filter (\<lambda>i. s ! i = CHR '','' \<and> d + paren_depth (take i s) = 0) [0 ..< length s]"

definition top_commas :: "string \<Rightarrow> nat list" where
  "top_commas s = top_commas_from 0 s"

fun cut_at :: "nat list \<Rightarrow> string \<Rightarrow> string list" where
  "cut_at [] s = [s]"
| "cut_at (p # ps) s = take p s # cut_at (map (\<lambda>q. q - Suc p) ps) (drop (Suc p) s)"

text \<open>
  \<open>no_top_comma d s\<close>: the loop started at count \<open>d\<close> meets no comma at count zero in
  \<open>s\<close>. \<open>blank s\<close>: \<open>s\<close> is white space only. \<open>colon_shape\<close> is the \<^verbatim>\<open>name: Type\<close> rendering of
  the TypeScript cleaner.
\<close>

fun no_top_comma :: "int \<Rightarrow> string \<Rightarrow> bool" where
  "no_top_comma d [] = True"
| "no_top_comma d (c # cs) =
     (if c = CHR ''('' then no_top_comma (d + 1) cs
      else if c = CHR '')'' then no_top_comma (d - 1) cs
      else if c = CHR '','' \<and> d = 0 then False
      else no_top_comma d cs)"

definition blank :: "string \<Rightarrow> bool" where
  "blank s = list_all isspace s"

definition colon_shape :: "string \<Rightarrow> string" where
  "colon_shape b =
     (if CHR '':'' \<in> set b
      then strip (takeWhile (\<lambda>c. c \<noteq> CHR '':'') b) @ '': '' @
           strip (tl (dropWhile (\<lambda>c. c \<noteq> CHR '':'') b))
      else strip b)"

section \<open>The JavaScript parser on the six-line input\<close>

text \<open>
  C5: on the six lines \<^verbatim>\<open>export function foo(a,b) {}\<close>, \<^verbatim>\<open>const bar = (x, y=1) => {}\<close>,
  \<^verbatim>\<open>export default function (z) {}\<close>, \<^verbatim>\<open>export default (q)=>{}\<close>, \<^verbatim>\<open>function qux() {}\<close>,
  \<^verbatim>\<open>export default qux;\<close>, read from a file named \<^verbatim>\<open>sample.js\<close>, the JavaScript parser
  returns the function records \<^verbatim>\<open>foo(a, b)\<close>, \<^verbatim>\<open>bar(x, y)\<close>, \<^verbatim>\<open><anonymous>(z)\<close>,
  \<^verbatim>\<open><anonymous>(q)\<close>, \<^verbatim>\<open>qux()\<close>, \<^verbatim>\<open>export default qux\<close>, one per line and in line order,
  and no class record.
\<close>

theorem js_six_line_records:
  "js_parse_file (\<lambda>p. Inr six_line_source) [''sample.js''] =
     Inr ([''sample.js:1: foo(a, b)'', ''sample.js:2: bar(x, y)'',
           ''sample.js:3: <anonymous>(z)'', ''sample.js:4: <anonymous>(q)'',
           ''sample.js:5: qux()'', ''sample.js:6: export default qux''], [])"
  by code_simp

section \<open>The walk of the syntax tree\<close>

lemma preorder_children: "preorder n = n # concat (map preorder (iter_child_nodes n))"
  by (cases n) simp_all

lemma nsize_children: "nsize n = Suc (sum_list (map nsize (iter_child_nodes n)))"
  by (cases n) simp_all

lemma walk_queue_append:
  "walk_queue (xs @ ys) = xs @ walk_queue (ys @ concat (map iter_child_nodes xs))"
  by (induction xs arbitrary: ys) simp_all

lemma walk_queue_level: "walk_queue q = q @ walk_queue (concat (map iter_child_nodes q))"
  using walk_queue_append [of q "[]"] by simp

lemma walk_queue_levels:
  "walk_queue q = concat (map (\<lambda>k. level_of k q) [0..<m]) @ walk_queue (level_of m q)"
proof (induction m arbitrary: q)
  case 0
  show ?case by simp
next
  case (Suc m)
  have "walk_queue q = q @ walk_queue (concat (map iter_child_nodes q))"
    by (rule walk_queue_level)
  also have "\<dots> = q @ concat (map (\<lambda>k. level_of k (concat (map iter_child_nodes q))) [0..<m])
      @ walk_queue (level_of m (concat (map iter_child_nodes q)))"
    using Suc.IH [of "concat (map iter_child_nodes q)"] by simp
  also have "\<dots> = concat (map (\<lambda>k. level_of k q) [0..<Suc m]) @ walk_queue (level_of (Suc m) q)"
  proof -
    have "[0..<Suc m] = 0 # map Suc [0..<m]"
      by (simp add: upt_conv_Cons map_Suc_upt del: upt_Suc)
    then show ?thesis
      by (simp add: comp_def del: upt_Suc)
  qed
  finally show ?case .
qed

lemma sum_nsize_children:
  "sum_list (map nsize q) = length q + sum_list (map nsize (concat (map iter_child_nodes q)))"
proof (induction q)
  case Nil
  show ?case by simp
next
  case (Cons n q)
  show ?case
    using Cons.IH nsize_children [of n] by simp
qed

lemma level_of_empty: "sum_list (map nsize q) \<le> m \<Longrightarrow> level_of m q = []"
proof (induction m arbitrary: q)
  case 0
  then have "length q = 0" using sum_nsize_children [of q] by simp
  then show ?case by simp
next
  case (Suc m)
  show ?case
  proof (cases "q = []")
    case True
    have "level_of k [] = []" for k by (induction k) simp_all
    with True show ?thesis by simp
  next
    case False
    then have "0 < length q" by simp
    with Suc.prems sum_nsize_children [of q]
    have "sum_list (map nsize (concat (map iter_child_nodes q))) \<le> m" by linarith
    then show ?thesis using Suc.IH by simp
  qed
qed

lemma walk_levels: "walk tree = concat (map (\<lambda>k. level_of k [tree]) [0..<nsize tree])"
proof -
  have "level_of (nsize tree) [tree] = []"
    by (rule level_of_empty) simp
  then show ?thesis
    using walk_queue_levels [of "[tree]" "nsize tree"] by (simp add: walk_def)
qed

lemma sum_mset_concat: "(\<Sum>c\<leftarrow>xs. mset (f c)) = mset (concat (map f xs))"
  by (induction xs) simp_all

lemma mset_walk_queue: "mset (walk_queue q) = (\<Sum>n\<leftarrow>q. mset (preorder n))"
proof (induction q rule: walk_queue.induct)
  case 1
  show ?case by simp
next
  case (2 n todo)
  have "mset (preorder n) = add_mset n (\<Sum>c\<leftarrow>iter_child_nodes n. mset (preorder c))"
    using preorder_children [of n] by (simp add: sum_mset_concat)
  with 2 show ?case
    by simp
qed

lemma mset_walk: "mset (walk tree) = mset (preorder tree)"
  using preorder_children [of tree] by (simp add: walk_def mset_walk_queue sum_mset_concat)

lemma foldl_visit:
  "foldl (visit unparse rel) (fl, cl) ns =
     (fl @ map (function_record unparse rel) (filter is_function ns),
      cl @ concat (map (class_lines unparse rel) (filter is_class ns)))"
proof (induction ns arbitrary: fl cl)
  case Nil
  show ?case by simp
next
  case (Cons n ns)
  show ?case by (cases n) (simp_all add: Cons.IH)
qed

lemma extract_tree_walk:
  "extract_tree unparse rel tree =
     (map (function_record unparse rel) (filter is_function (walk tree)),
      concat (map (class_lines unparse rel) (filter is_class (walk tree))))"
  by (simp add: extract_tree_def foldl_visit)

lemma walk_nested_tree:
  "walk nested_tree =
     [nested_tree,
      FunctionDef ''a'' noargs [FunctionDef ''b'' noargs [] [] None 2] [] None 1,
      FunctionDef ''c'' noargs [] [] None 3,
      FunctionDef ''b'' noargs [] [] None 2]"
  by (simp add: walk_def nested_tree_def)

section \<open>One record per definition, in the order of the walk\<close>

text \<open>
  C2, as the specification states it, asks for the function records in the order of a
  pre-order walk. On \<open>nested_tree\<close> the extractor gives \<^verbatim>\<open>a\<close>, \<^verbatim>\<open>c\<close>, \<^verbatim>\<open>b\<close>: the nested \<^verbatim>\<open>b\<close>
  comes after \<^verbatim>\<open>c\<close>, where the pre-order walk has \<^verbatim>\<open>a\<close>, \<^verbatim>\<open>b\<close>, \<^verbatim>\<open>c\<close>.
\<close>

theorem extract_order_not_preorder:
  "fst (extract_tree plain_unparse ''m.py'' nested_tree) =
     [''m.py:1: a() -> Unknown'', ''m.py:3: c() -> Unknown'', ''m.py:2: b() -> Unknown''] \<and>
   map (function_record plain_unparse ''m.py'') (filter is_function (preorder nested_tree)) =
     [''m.py:1: a() -> Unknown'', ''m.py:2: b() -> Unknown'', ''m.py:3: c() -> Unknown''] \<and>
   fst (extract_tree plain_unparse ''m.py'' nested_tree) \<noteq>
     map (function_record plain_unparse ''m.py'') (filter is_function (preorder nested_tree))"
  by code_simp

text \<open>
  C2, amended: for every syntax tree the extractor emits one function line for each
  function or async-function node and the lines of one class record for each class
  node, at any depth: the nodes it visits are those of the pre-order walk, each as often
  as there. The records stand in the order of \<^verbatim>\<open>ast.walk\<close>, which is breadth-first: all
  nodes of one depth, from left to right, before any node of the next depth.
\<close>

theorem extract_tree_breadth_first:
  "extract_tree unparse rel tree =
     (map (function_record unparse rel) (filter is_function (walk tree)),
      concat (map (class_lines unparse rel) (filter is_class (walk tree)))) \<and>
   mset (walk tree) = mset (preorder tree) \<and>
   walk tree = concat (map (\<lambda>k. level_of k [tree]) [0..<nsize tree])"
  using extract_tree_walk [of unparse rel tree] mset_walk [of tree] walk_levels [of tree]
  by simp

section \<open>The parameters of a function line\<close>

text \<open>
  C10: the parameter list of a function line holds the regular positional parameters
  (\<^verbatim>\<open>node.args.args\<close>), then the variadic-positional parameter as \<^verbatim>\<open>*name\<close>, then the
  variadic-keyword parameter as \<^verbatim>\<open>**name\<close>, and nothing else: whatever the
  positional-only and keyword-only parameters of a definition are, its line is the same.
  For \<^verbatim>\<open>def f(p, /, x, *va, k, **kw)\<close> the line reads \<^verbatim>\<open>f(x, *va, **kw)\<close>.
\<close>

theorem signature_parameters:
  "render_args unparse a =
     map (render_arg unparse) (args a) @
     (case vararg a of Some v \<Rightarrow> [''*'' @ arg v] | None \<Rightarrow> []) @
     (case kwarg a of Some k \<Rightarrow> [''**'' @ arg k] | None \<Rightarrow> []) \<and>
   render_args unparse (a\<lparr>posonlyargs := ps, kwonlyargs := ks\<rparr>) = render_args unparse a \<and>
   visit unparse rel acc
     (FunctionDef name (a\<lparr>posonlyargs := ps, kwonlyargs := ks\<rparr>) body decorator_list returns lineno) =
   visit unparse rel acc (FunctionDef name a body decorator_list returns lineno) \<and>
   visit unparse rel acc
     (AsyncFunctionDef name (a\<lparr>posonlyargs := ps, kwonlyargs := ks\<rparr>) body decorator_list returns lineno) =
   visit unparse rel acc (AsyncFunctionDef name a body decorator_list returns lineno) \<and>
   function_record plain_unparse ''m.py'' (FunctionDef ''f'' mixed_arguments [] [] None 1) =
     ''m.py:1: f(x, *va, **kw) -> Unknown''"
proof -
  have 1: "render_args unparse (a\<lparr>posonlyargs := ps, kwonlyargs := ks\<rparr>) = render_args unparse a"
    by (simp add: render_args_def)
  have 2: "function_record plain_unparse ''m.py'' (FunctionDef ''f'' mixed_arguments [] [] None 1) =
     ''m.py:1: f(x, *va, **kw) -> Unknown''"
    by code_simp
  show ?thesis
    using 1 2 by (cases acc) (simp add: render_args_def func_line_def)
qed

section \<open>The attribute lists of a class record\<close>

lemma sorted_fst_of_sorted:
  fixes xs :: "(string \<times> string) list"
  shows "sorted xs \<Longrightarrow> sorted (map fst xs)"
  by (induction xs) (auto simp: less_eq_prod_def)

lemma collect_properties_append:
  "collect_properties unparse (ClassDef name bases (body1 @ body2) lineno) =
   collect_properties unparse (ClassDef name bases body1 lineno) @
   collect_properties unparse (ClassDef name bases body2 lineno)"
  by simp

text \<open>
  C9: an assignment with no annotation and no type comment records each of its
  attributes with the type \<^verbatim>\<open>Unknown\<close>, and a property with no return annotation is
  recorded with \<^verbatim>\<open>Unknown\<close>. The \<^verbatim>\<open>class_attrs\<close> and \<^verbatim>\<open>instance_attrs\<close> lines render the
  collected (name, type) entries sorted, so in the order of their names, and lose or add
  no entry; the \<^verbatim>\<open>properties\<close> line renders its entries as collected, statement by
  statement of the class body, so in declaration order.
\<close>

theorem class_record_attributes:
  "\<not> truthy type_comment \<Longrightarrow>
   type_of_assign unparse (Assign targets type_comment) = ''Unknown'' \<and>
   map snd (class_attrs_of_stmt unparse (Assign targets type_comment)) =
     map (\<lambda>n. ''Unknown'') (List.map_filter name_id targets) \<and>
   map snd (instance_attrs_of_node unparse (Assign targets type_comment)) =
     map (\<lambda>n. ''Unknown'') (List.map_filter self_attr targets) \<and>
   render_returns unparse None = ''Unknown'' \<and>
   class_lines unparse rel (ClassDef name bases body lineno) =
     (let cls = ClassDef name bases body lineno;
          class_attrs = sort (collect_class_attrs unparse cls);
          inst_attrs = sort (collect_instance_attrs unparse cls);
          props = concat (map (properties_of_stmt unparse) body)
      in [class_header unparse rel name bases lineno] @
         (if class_attrs \<noteq> [] then [indent @ ''class_attrs: '' @ render_pairs class_attrs] else []) @
         (if inst_attrs \<noteq> [] then [indent @ ''instance_attrs: '' @ render_pairs inst_attrs] else []) @
         (if props \<noteq> [] then [indent @ ''properties: '' @ render_pairs props] else [])) \<and>
   sorted (map fst (sort (collect_class_attrs unparse (ClassDef name bases body lineno)))) \<and>
   mset (sort (collect_class_attrs unparse (ClassDef name bases body lineno))) =
     mset (collect_class_attrs unparse (ClassDef name bases body lineno)) \<and>
   sorted (map fst (sort (collect_instance_attrs unparse (ClassDef name bases body lineno)))) \<and>
   mset (sort (collect_instance_attrs unparse (ClassDef name bases body lineno))) =
     mset (collect_instance_attrs unparse (ClassDef name bases body lineno))"
proof -
  assume tc: "\<not> truthy type_comment"
  have a: "type_of_assign unparse (Assign targets type_comment) = ''Unknown''"
    using tc by simp
  have b: "map snd (class_attrs_of_stmt unparse (Assign targets type_comment)) =
     map (\<lambda>n. ''Unknown'') (List.map_filter name_id targets)"
    using tc by (simp add: class_attrs_of_stmt_def comp_def)
  have c: "map snd (instance_attrs_of_node unparse (Assign targets type_comment)) =
     map (\<lambda>n. ''Unknown'') (List.map_filter self_attr targets)"
    using tc by (simp add: instance_attrs_of_node_def comp_def)
  have d: "render_returns unparse None = ''Unknown''"
    by (simp add: render_returns_def)
  have e: "sorted (map fst (sort xs))" for xs :: "(string \<times> string) list"
    by (rule sorted_fst_of_sorted) simp
  have f: "sort xs \<noteq> [] \<longleftrightarrow> xs \<noteq> []" for xs :: "(string \<times> string) list"
    using length_sort [of "\<lambda>x. x" xs] by (metis length_0_conv)
  show ?thesis
    using a b c d e by (simp add: Let_def f)
qed

theorem class_record_attributes_witness:
  "\<not> truthy None \<and>
   type_of_assign plain_unparse (Assign [Name ''z'', Name ''a''] None) = ''Unknown'' \<and>
   class_lines plain_unparse ''m.py'' sample_class =
     [''m.py:1: class K(B)'',
      indent @ ''class_attrs: a -> Unknown, m -> int, z -> Unknown'',
      indent @ ''instance_attrs: x -> Unknown'',
      indent @ ''properties: q -> int, p -> Unknown'']"
proof -
  have h: "\<not> truthy None" by (simp add: truthy_def)
  have "class_lines plain_unparse ''m.py'' sample_class =
     [''m.py:1: class K(B)'',
      indent @ ''class_attrs: a -> Unknown, m -> int, z -> Unknown'',
      indent @ ''instance_attrs: x -> Unknown'',
      indent @ ''properties: q -> int, p -> Unknown'']"
    by code_simp
  then show ?thesis
    using h class_record_attributes [OF h, of plain_unparse "[Name ''z'', Name ''a'']"] by simp
qed

section \<open>Failures of a single-file extraction\<close>

lemma js_parse_file_total: "\<exists>r. js_parse_file fs file_path = Inr r"
  by (simp add: js_parse_file_def split: sum.splits)

lemma ts_parse_file_total: "\<exists>r. ts_parse_file fs file_path = Inr r"
  by (simp add: ts_parse_file_def split: sum.splits)

lemma extract_syntax_error:
  "fs file = Inr source \<Longrightarrow> ast_parse source = Inl SyntaxError \<Longrightarrow>
   extract_from_file fs ast_parse unparse file project_root = Inr ([], [])"
  by (simp add: extract_from_file_def)

text \<open>
  C1 asks that no single-file extraction raises. On a file that cannot be read the two
  regex parsers return the empty pair, and \<^verbatim>\<open>extract_from_file\<close> raises: its \<^verbatim>\<open>except\<close>
  names \<^verbatim>\<open>SyntaxError\<close> only, so the \<^verbatim>\<open>OSError\<close> of \<^verbatim>\<open>read_text\<close> reaches the caller.
\<close>

theorem unreadable_file_raises:
  "extract_from_file unreadable ast_parse unparse file project_root = Inl OSError \<and>
   js_parse_file unreadable file = Inr ([], []) \<and>
   ts_parse_file unreadable file = Inr ([], [])"
  by (simp add: extract_from_file_def js_parse_file_def ts_parse_file_def unreadable_def)

section \<open>Facts about the matcher\<close>










section \<open>Facts about the pattern tables and the line loops\<close>



















section \<open>Files without declarations\<close>




section \<open>Function patterns and class patterns on one line\<close>




section \<open>The return type of a TypeScript function record\<close>




section \<open>Facts about trimming and the splitting loop\<close>

lemma isspace_chars [simp]:
  "\<not> isspace CHR ''(''" "\<not> isspace CHR '')''" "\<not> isspace CHR '',''" "\<not> isspace CHR ''=''"
  "\<not> isspace CHR '':''" "isspace CHR '' ''"
  by (simp_all add: isspace_def)

lemma strip_Nil [simp]: "strip [] = []"
  by (simp add: strip_def)

lemma blank_simps [simp]:
  "blank []" "blank (c # cs) = (isspace c \<and> blank cs)" "blank (u @ v) = (blank u \<and> blank v)"
  "blank (rev u) = blank u"
  by (auto simp: blank_def list_all_iff)

lemma dropWhile_blank: "blank s \<Longrightarrow> dropWhile isspace (s @ t) = dropWhile isspace t"
  by (induction s) simp_all

lemma dropWhile_blank_Nil: "blank s \<Longrightarrow> dropWhile isspace s = []"
  by (induction s) simp_all

lemma strip_blank: "blank s \<Longrightarrow> strip s = []"
  by (simp only: strip_def dropWhile_blank_Nil rev.simps dropWhile.simps)

lemma strip_blank_left: "blank a \<Longrightarrow> strip (a @ t) = strip t"
  unfolding strip_def by (simp only: dropWhile_blank)

lemma strip_blank_right:
  assumes "blank b"
  shows "strip (t @ b) = strip t"
proof (cases "blank t")
  case True
  with assms have "blank (t @ b)" by simp
  with True show ?thesis by (simp only: strip_blank)
next
  case False
  then have "\<exists>x \<in> set t. \<not> isspace x" by (auto simp: blank_def list_all_iff)
  then have 1: "dropWhile isspace (t @ b) = dropWhile isspace t @ b"
    by (auto simp: dropWhile_append1)
  have 2: "dropWhile isspace (rev b @ r) = dropWhile isspace r" for r
    using assms by (simp only: dropWhile_blank blank_simps)
  show ?thesis unfolding strip_def 1 rev_append 2 ..
qed

lemma strip_decomp_blank: "\<exists>a b. raw = a @ strip raw @ b \<and> blank a \<and> blank b"
proof -
  let ?d = "dropWhile isspace raw"
  let ?e = "rev (takeWhile isspace (rev ?d))"
  have 1: "raw = takeWhile isspace raw @ ?d" by simp
  have "rev (rev ?d) = rev (takeWhile isspace (rev ?d) @ dropWhile isspace (rev ?d))"
    by (simp only: takeWhile_dropWhile_id)
  then have "?d = rev (dropWhile isspace (rev ?d)) @ ?e"
    by (simp only: rev_append rev_rev_ident)
  then have 2: "?d = strip raw @ ?e" by (simp only: strip_def)
  have 3: "blank (takeWhile isspace raw)"
    by (auto simp: blank_def list_all_iff dest: set_takeWhileD)
  have 4: "blank ?e"
    by (auto simp: blank_def list_all_iff dest: set_takeWhileD)
  have "raw = takeWhile isspace raw @ strip raw @ ?e"
    using 1 2 by (simp only:)
  with 3 4 show ?thesis by blast
qed

lemma strip_cases:
  obtains a m b where "s = a @ m @ b" "strip s = m" "blank a" "blank b"
  using strip_decomp_blank [of s] by blast

lemma strip_strip [simp]: "strip (strip s) = strip s"
proof -
  obtain a m b where s: "s = a @ m @ b" and m: "strip s = m" and ab: "blank a" "blank b"
    by (rule strip_cases)
  have "strip (a @ m @ b) = strip m"
    using ab by (simp add: strip_blank_left strip_blank_right)
  with s m have "m = strip m" by simp
  with m show ?thesis by simp
qed

lemma strip_mem: "\<not> isspace c \<Longrightarrow> c \<in> set (strip s) \<longleftrightarrow> c \<in> set s"
proof -
  assume c: "\<not> isspace c"
  obtain a m b where s: "s = a @ m @ b" and m: "strip s = m" and ab: "blank a" "blank b"
    by (rule strip_cases)
  from c ab have "c \<notin> set a" "c \<notin> set b" by (auto simp: blank_def list_all_iff)
  moreover have "set s = set a \<union> set m \<union> set b" using s by auto
  ultimately show ?thesis unfolding m by simp
qed

lemma set_strip: "c \<in> set (strip s) \<Longrightarrow> c \<in> set s"
proof -
  obtain a m b where s: "s = a @ m @ b" and m: "strip s = m"
    by (rule strip_cases)
  have "set s = set a \<union> set m \<union> set b" using s by auto
  then show "c \<in> set (strip s) \<Longrightarrow> c \<in> set s" unfolding m by simp
qed

lemma paren_depth_simps [simp]:
  "paren_depth [] = 0"
  "paren_depth (c # cs) =
     (if c = CHR ''('' then 1 else if c = CHR '')'' then - 1 else 0) + paren_depth cs"
  "paren_depth (u @ v) = paren_depth u + paren_depth v"
  by (simp_all add: paren_depth_def)

lemma paren_depth_blank: "blank w \<Longrightarrow> paren_depth w = 0"
  by (induction w) auto

lemma no_top_comma_append:
  "no_top_comma d (u @ v) = (no_top_comma d u \<and> no_top_comma (d + paren_depth u) v)"
  by (induction u arbitrary: d) (simp_all add: algebra_simps)


lemma no_top_comma_strip: "no_top_comma 0 s \<Longrightarrow> no_top_comma 0 (strip s)"
proof -
  assume g: "no_top_comma 0 s"
  obtain a m b where s: "s = a @ m @ b" and m: "strip s = m" and ab: "blank a" "blank b"
    by (rule strip_cases)
  from g have "no_top_comma 0 (a @ m @ b)" unfolding s .
  then show ?thesis
    unfolding m using ab by (simp add: no_top_comma_append paren_depth_blank)
qed

lemma paren_depth_strip: "paren_depth (strip s) = paren_depth s"
proof -
  obtain a m b where s: "s = a @ m @ b" and m: "strip s = m" and ab: "blank a" "blank b"
    by (rule strip_cases)
  show ?thesis unfolding m unfolding s using ab by (simp add: paren_depth_blank)
qed

lemma no_top_comma_takeWhile: "no_top_comma d s \<Longrightarrow> no_top_comma d (takeWhile P s)"
proof -
  assume "no_top_comma d s"
  then have "no_top_comma d (takeWhile P s @ dropWhile P s)" by simp
  then show ?thesis unfolding no_top_comma_append by simp
qed






lemma before_eq_id: "CHR ''='' \<notin> set p \<Longrightarrow> before_eq p = p"
  by (auto simp: before_eq_def takeWhile_eq_all_conv)

lemma before_eq_no_eq: "CHR ''='' \<notin> set (before_eq p)"
  by (auto simp: before_eq_def dest: set_takeWhileD)

lemma js_clean_param_eq: "js_clean_param p = strip (before_eq p)"
  by (simp add: js_clean_param_def before_eq_id)

lemma js_clean_param_props:
  "CHR ''='' \<notin> set (js_clean_param p)" "strip (js_clean_param p) = js_clean_param p"
  "no_top_comma 0 p \<Longrightarrow> no_top_comma 0 (js_clean_param p)"
  using before_eq_no_eq [of p] set_strip [of "CHR ''=''" "before_eq p"]
  by (auto simp: js_clean_param_eq before_eq_def no_top_comma_strip no_top_comma_takeWhile)


lemma join_Nil_iff: "join '', '' qs = [] \<longleftrightarrow> qs = [] \<or> qs = [[]]"
proof (cases qs)
  case Nil
  then show ?thesis by simp
next
  case (Cons x xs)
  then show ?thesis by (cases xs) auto
qed


lemma ts_clean_param_shape:
  "ts_clean_param p =
     colon_shape (if CHR ''='' \<in> set p then strip (before_eq p) else p)"
  by (simp add: ts_clean_param_def colon_shape_def Let_def)


lemma colon_shape_strip: "colon_shape (strip x) = colon_shape x"
proof -
  obtain a m b where x: "x = a @ m @ b" and m: "strip x = m" and ab: "blank a" "blank b"
    by (rule strip_cases)
  have mem: "CHR '':'' \<in> set m \<longleftrightarrow> CHR '':'' \<in> set x"
    using strip_mem [of "CHR '':''" x] m by simp
  show ?thesis
  proof (cases "CHR '':'' \<in> set x")
    case False
    with mem show ?thesis unfolding m [symmetric] by (simp add: colon_shape_def)
  next
    case True
    with mem have cm: "CHR '':'' \<in> set m" by simp
    from ab have ca: "\<forall>c \<in> set a. c \<noteq> CHR '':''" by (auto simp: blank_def list_all_iff)
    have tw: "takeWhile (\<lambda>c. c \<noteq> CHR '':'') (a @ m @ b) = a @ takeWhile (\<lambda>c. c \<noteq> CHR '':'') m"
      using ca cm by (auto simp: takeWhile_append)
    have dw: "dropWhile (\<lambda>c. c \<noteq> CHR '':'') (a @ m @ b) = dropWhile (\<lambda>c. c \<noteq> CHR '':'') m @ b"
      using ca cm by (auto simp: dropWhile_append)
    have ne: "dropWhile (\<lambda>c. c \<noteq> CHR '':'') m \<noteq> []"
      using cm by (auto simp: dropWhile_eq_Nil_conv)
    have "colon_shape x = strip (a @ takeWhile (\<lambda>c. c \<noteq> CHR '':'') m) @ '': '' @
        strip (tl (dropWhile (\<lambda>c. c \<noteq> CHR '':'') m) @ b)"
      using True ne unfolding x by (simp add: colon_shape_def tw dw del: set_append)
    also have "\<dots> = colon_shape m"
      using cm ab by (simp add: colon_shape_def strip_blank_left strip_blank_right)
    finally show ?thesis unfolding m by simp
  qed
qed



lemma upt_Suc_shift: "[0 ..< Suc n] = 0 # map Suc [0 ..< n]"
  by (simp add: upt_conv_Cons map_Suc_upt del: upt_Suc)

lemma top_commas_from_comma:
  "top_commas_from 0 (CHR '','' # cs) = 0 # map Suc (top_commas_from 0 cs)"
  unfolding top_commas_from_def length_Cons upt_Suc_shift
  by (simp add: filter_map comp_def del: upt_Suc)

lemma top_commas_from_other:
  assumes "\<not> (c = CHR '','' \<and> d = 0)"
  shows "top_commas_from d (c # cs) = map Suc (top_commas_from (d + paren_depth [c]) cs)"
proof -
  have "top_commas_from d (c # cs) =
      filter (\<lambda>i. (c # cs) ! i = CHR '','' \<and> d + paren_depth (take i (c # cs)) = 0)
        (0 # map Suc [0 ..< length cs])"
    unfolding top_commas_from_def length_Cons upt_Suc_shift ..
  also have "\<dots> = map Suc (filter (\<lambda>i. cs ! i = CHR '','' \<and>
      d + paren_depth [c] + paren_depth (take i cs) = 0) [0 ..< length cs])"
    using assms by (auto simp: filter_map comp_def algebra_simps intro!: filter_cong)
  finally show ?thesis by (simp add: top_commas_from_def)
qed

lemma cut_nonempty [simp]: "cut_at ps s \<noteq> []"
  by (cases ps) simp_all

lemma cut_zero: "cut_at (0 # map Suc ps) (c # cs) = [] # cut_at ps cs"
  by (simp add: comp_def)

lemma cut_shift: "cut_at (map Suc ps) (c # cs) = (c # hd (cut_at ps cs)) # tl (cut_at ps cs)"
  by (cases ps) (simp_all add: comp_def)

lemma split_params_cut:
  "split_params cs (pl, cur, d) =
     (pl @ map strip (butlast ((cur @ hd (cut_at (top_commas_from d cs) cs)) #
                               tl (cut_at (top_commas_from d cs) cs))),
      last ((cur @ hd (cut_at (top_commas_from d cs) cs)) # tl (cut_at (top_commas_from d cs) cs)),
      d + paren_depth cs)"
proof (induction cs arbitrary: pl cur d)
  case Nil
  show ?case by (simp add: top_commas_from_def)
next
  case (Cons c cs)
  show ?case
  proof (cases "c = CHR '','' \<and> d = 0")
    case True
    let ?Q = "cut_at (top_commas_from 0 cs) cs"
    have q: "?Q = hd ?Q # tl ?Q" by simp
    have "split_params (c # cs) (pl, cur, d) = split_params cs (pl @ [strip cur], [], 0)"
      using True by simp
    also have "\<dots> = ((pl @ [strip cur]) @ map strip (butlast (([] @ hd ?Q) # tl ?Q)),
        last (([] @ hd ?Q) # tl ?Q), 0 + paren_depth cs)"
      by (rule Cons.IH)
    also have "\<dots> = (pl @ map strip (butlast (cur # ?Q)), last (cur # ?Q), paren_depth cs)"
      by simp
    finally show ?thesis
      using True by (simp add: top_commas_from_comma cut_zero del: cut_at.simps)
  next
    case False
    define d1 where "d1 = d + paren_depth [c]"
    let ?Q = "cut_at (top_commas_from d1 cs) cs"
    have "split_params (c # cs) (pl, cur, d) = split_params cs (pl, cur @ [c], d1)"
      using False by (auto simp: d1_def)
    also have "\<dots> = (pl @ map strip (butlast (((cur @ [c]) @ hd ?Q) # tl ?Q)),
        last (((cur @ [c]) @ hd ?Q) # tl ?Q), d1 + paren_depth cs)"
      by (rule Cons.IH)
    finally show ?thesis
      using top_commas_from_other [OF False, of cs]
      by (simp add: cut_shift d1_def algebra_simps del: cut_at.simps)
  qed
qed

lemma param_list_of_cut:
  "param_list_of params =
     (let pieces = cut_at (top_commas params) params
      in map strip (butlast pieces) @
         (if strip (last pieces) \<noteq> [] then [strip (last pieces)] else []))"
proof -
  let ?Q = "cut_at (top_commas_from 0 params) params"
  have q: "([] @ hd ?Q) # tl ?Q = ?Q" by simp
  have "split_params params ([], [], 0) = (map strip (butlast ?Q), last ?Q, paren_depth params)"
    using split_params_cut [of params "[]" "[]" 0] unfolding q by simp
  then show ?thesis
    by (simp add: param_list_of_def top_commas_def Let_def)
qed

lemma colon_shape_no_eq: "CHR ''='' \<notin> set b \<Longrightarrow> CHR ''='' \<notin> set (colon_shape b)"
proof -
  assume b: "CHR ''='' \<notin> set b"
  have "CHR ''='' \<notin> set (takeWhile (\<lambda>c. c \<noteq> CHR '':'') b)"
    using b by (auto dest: set_takeWhileD)
  then have 1: "CHR ''='' \<notin> set (strip (takeWhile (\<lambda>c. c \<noteq> CHR '':'') b))"
    using set_strip by blast
  have "CHR ''='' \<notin> set (dropWhile (\<lambda>c. c \<noteq> CHR '':'') b)"
    using b by (auto dest: set_dropWhileD)
  moreover have "set (tl xs) \<subseteq> set xs" for xs :: string
    by (cases xs) auto
  ultimately have "CHR ''='' \<notin> set (tl (dropWhile (\<lambda>c. c \<noteq> CHR '':'') b))"
    by blast
  then have 2: "CHR ''='' \<notin> set (strip (tl (dropWhile (\<lambda>c. c \<noteq> CHR '':'') b)))"
    using set_strip by blast
  have 3: "CHR ''='' \<notin> set (strip b)" using b set_strip by blast
  show ?thesis using 1 2 3 by (simp add: colon_shape_def)
qed

lemma ts_clean_param_eq: "ts_clean_param p = colon_shape (strip (before_eq p))"
proof (cases "CHR ''='' \<in> set p")
  case True
  then show ?thesis by (simp only: ts_clean_param_shape if_True)
next
  case False
  then have "ts_clean_param p = colon_shape p" by (simp only: ts_clean_param_shape if_False)
  also have "\<dots> = colon_shape (strip p)" by (simp only: colon_shape_strip)
  also have "\<dots> = colon_shape (strip (before_eq p))" using before_eq_id [OF False] by simp
  finally show ?thesis .
qed

lemma ts_clean_param_no_eq: "CHR ''='' \<notin> set (ts_clean_param p)"
  unfolding ts_clean_param_eq
  using before_eq_no_eq [of p] set_strip [of "CHR ''=''" "before_eq p"]
  by (intro colon_shape_no_eq) blast

section \<open>Splitting at top-level commas and stripping defaults\<close>

text \<open>
  C6: for every raw parameter string the cleaners split it at its top-level commas and
  nowhere else: the parameters are the trimmed pieces between the commas that stand at
  parenthesis depth zero, the piece after the last such comma being left out when it is
  blank. Each parameter is cleaned from its text before the first \<^verbatim>\<open>=\<close> only, and no \<^verbatim>\<open>=\<close>
  is left in it. The input \<^verbatim>\<open>a, b=f(1,2)\<close> has one top-level comma and gives the two
  parameters \<^verbatim>\<open>a\<close> and \<^verbatim>\<open>b\<close> in both cleaners.
\<close>

theorem top_level_split:
  "param_list_of params =
     (let pieces = cut_at (top_commas params) params
      in map strip (butlast pieces) @
         (if strip (last pieces) \<noteq> [] then [strip (last pieces)] else [])) \<and>
   clean_js_params params = join '', '' (map js_clean_param (param_list_of params)) \<and>
   clean_typescript_params params = join '', '' (map ts_clean_param (param_list_of params)) \<and>
   js_clean_param p = strip (before_eq p) \<and>
   ts_clean_param p = colon_shape (strip (before_eq p)) \<and>
   CHR ''='' \<notin> set (js_clean_param p) \<and> CHR ''='' \<notin> set (ts_clean_param p) \<and>
   top_commas ''a, b=f(1,2)'' = [1] \<and>
   js_cleaned ''a, b=f(1,2)'' = [''a'', ''b''] \<and>
   ts_cleaned ''a, b=f(1,2)'' = [''a'', ''b'']"
proof -
  have e: "param_list_of [] = []" by (simp add: param_list_of_def)
  have 1: "clean_js_params params = join '', '' (map js_clean_param (param_list_of params))"
    by (simp add: clean_js_params_def js_cleaned_def e)
  have 2: "clean_typescript_params params = join '', '' (map ts_clean_param (param_list_of params))"
    by (simp add: clean_typescript_params_def ts_cleaned_def e)
  have 3: "top_commas ''a, b=f(1,2)'' = [1] \<and> js_cleaned ''a, b=f(1,2)'' = [''a'', ''b''] \<and>
      ts_cleaned ''a, b=f(1,2)'' = [''a'', ''b'']"
    by code_simp
  show ?thesis
    using param_list_of_cut [of params] 1 2 3 js_clean_param_eq [of p] ts_clean_param_eq [of p]
      js_clean_param_props(1) [of p] ts_clean_param_no_eq [of p]
    by (simp only: simp_thms)
qed

section \<open>Cleaning a cleaned parameter string\<close>




text \<open>
  Both conditions are needed. Without balanced parentheses the second pass can find a
  top-level comma where the first pass found none: the default \<^verbatim>\<open>=(\<close> closes the
  parenthesis that the cleaned parameter leaves open.
\<close>

lemma cleaning_unbalanced_parameter:
  "clean_js_params '')=(,f(a,b)'' = ''), f(a,b)'' \<and>
   clean_js_params ''), f(a,b)'' = ''), f(a, b)''"
  by code_simp

end
